theory Spec2Isabelle
  imports Main "HOL-Library.Sublist" "HOL-Library.Char_ord" "HOL-Library.List_Lexorder"
    "HOL-Library.AList"
begin

section \<open>Python values\<close>

text \<open>
  The notebook \<^verbatim>\<open>object-detection.ipynb\<close> builds two kinds of values of its own:
  dictionaries with \<^verbatim>\<open>str\<close> keys and the scalars, lists and strings stored in them.
  A dictionary is an association list in insertion order, as a Python \<^verbatim>\<open>dict\<close>
  keeps it. A float is kept as the decimal literal the source writes: mantissa and decimal
  exponent (\<^verbatim>\<open>1e-4\<close> is \<open>PyFloat 1 (-4)\<close>). \<open>PyObject c\<close> is an instance of any
  other class \<open>c\<close> (a file object, a class object, a model).
\<close>

datatype pyval =
    PyNone
  | PyBool bool
  | PyInt int
  | PyFloat int int
  | PyStr string
  | PyList "pyval list"
  | PyDict "(string \<times> pyval) list"
  | PyObject string

type_synonym pydict = "(string \<times> pyval) list"

section \<open>What the outside world answers\<close>

text \<open>
  Two values reach the notebook from the dataset-hosting service: the mapping
  \<^verbatim>\<open>project.classes\<close> (class name to a count) and the value that
  \<^verbatim>\<open>version.download\<close> returns, bound to \<^verbatim>\<open>dataset\<close>. The hosting client is not part of the
  repository; the dataset descriptor is what the specification's data model says of it,
  a directory tree plus a class-name list.
\<close>

record dataset_descriptor =
  location :: string
  class_names :: "string list"

record world =
  classes :: pydict
  dataset :: dataset_descriptor

section \<open>The cells of the notebook\<close>

text \<open>
  An effect is a step of the notebook that leaves the interpreter: a shell line
  (\<^verbatim>\<open>! ...\<close>), a call of a builtin that touches the file system, or a call into an
  imported package (package, callee, positional arguments, keyword arguments).
\<close>

datatype effect =
    Shell string
  | Builtin string "pyval list" pydict
  | LibCall string string "pyval list" pydict

text \<open>
  \<^verbatim>\<open>
  labels = list(project.classes.keys())
  nc = len(labels)
  data_yaml = {"path": ".", "train": "train", "val": "valid", "test": "test",
               "nc": nc, "names": labels}
  \<close>
\<close>

definition labels_of :: "pydict \<Rightarrow> string list" where
  "labels_of project_classes = map fst project_classes"

definition data_yaml :: "string list \<Rightarrow> pydict" where
  "data_yaml labels =
     (let nc = int (length labels) in
      [(''path'', PyStr ''.''),
       (''train'', PyStr ''train''),
       (''val'', PyStr ''valid''),
       (''test'', PyStr ''test''),
       (''nc'', PyInt nc),
       (''names'', PyList (map PyStr labels))])"

text \<open>
  \<^verbatim>\<open>
  simple_hyperparameters = dict(device = 0, data = "data.yaml", epochs = 20,
                                batch = 16, seed = 1337)
  \<close>
\<close>

definition simple_hyperparameters :: pydict where
  "simple_hyperparameters =
     [(''device'', PyInt 0),
      (''data'', PyStr ''data.yaml''),
      (''epochs'', PyInt 20),
      (''batch'', PyInt 16),
      (''seed'', PyInt 1337)]"

text \<open>
  \<^verbatim>\<open>
  hyperparameters = dict(device = 0, data = "data.yaml", epochs = 20, batch = 16,
      optimizer = "AdamW", cos_lr = True, lr0 = 1e-4, warmup_epochs = 5,
      project = "object-detection", name = "training-1", verbose = True, seed = 1337)
  \<close>
\<close>

definition hyperparameters :: pydict where
  "hyperparameters =
     [(''device'', PyInt 0),
      (''data'', PyStr ''data.yaml''),
      (''epochs'', PyInt 20),
      (''batch'', PyInt 16),
      (''optimizer'', PyStr ''AdamW''),
      (''cos_lr'', PyBool True),
      (''lr0'', PyFloat 1 (- 4)),
      (''warmup_epochs'', PyInt 5),
      (''project'', PyStr ''object-detection''),
      (''name'', PyStr ''training-1''),
      (''verbose'', PyBool True),
      (''seed'', PyInt 1337)]"

text \<open>
  \<^verbatim>\<open>_ = model.train(**hyperparameters)\<close>: the dictionary is unpacked into the keyword
  arguments of the one call; the cell reads it nowhere else.
\<close>

definition train_cell :: "pydict \<Rightarrow> effect" where
  "train_cell kwargs = LibCall ''ultralytics'' ''train'' [] kwargs"

text \<open>
  The notebook from its first cell to its last, as the list of its effects in the order
  of the cells. Nothing in the notebook branches, loops or handles an exception, so the
  list has one shape for every answer of the outside world; only the data handed to
  \<^verbatim>\<open>yaml.dump\<close> depends on it. The value bound to \<^verbatim>\<open>dataset\<close> is not read again.
\<close>

definition notebook :: "world \<Rightarrow> effect list" where
  "notebook w =
     (let labels = labels_of (classes w) in
      [Shell ''pip install --upgrade --no-cache-dir --quiet ultralytics roboflow pyyaml tensorboard'',
       LibCall ''roboflow'' ''Roboflow'' [] [(''api_key'', PyStr ''API-KEY'')],
       LibCall ''roboflow'' ''workspace'' [PyStr ''large-benchmark-datasets''] [],
       LibCall ''roboflow'' ''project'' [PyStr ''logistics-sz9jr''] [],
       LibCall ''roboflow'' ''version'' [PyInt 2] [],
       LibCall ''roboflow'' ''download'' [PyStr ''yolov8''] [(''location'', PyStr ''datasets'')],
       Builtin ''open'' [PyStr ''data.yaml'', PyStr ''w''] [],
       LibCall ''yaml'' ''dump''
         [PyDict (data_yaml labels), PyObject ''fp'', PyObject ''yaml.SafeDumper''] [],
       LibCall ''ultralytics'' ''YOLO'' [PyStr ''yolov8s.pt''] [(''task'', PyStr ''detect'')],
       train_cell hyperparameters,
       LibCall ''ultralytics'' ''val'' [] [],
       Shell ''yolo export model=object-detector/test-run-3/weights/best.pt format=tflite''])"

subsection \<open>Reading the list of effects\<close>

fun library_call :: "effect \<Rightarrow> bool" where
  "library_call (LibCall p c a k) = True"
| "library_call _ = False"

fun shell_command :: "effect \<Rightarrow> string option" where
  "shell_command (Shell c) = Some c"
| "shell_command _ = None"

fun callee :: "effect \<Rightarrow> string option" where
  "callee (LibCall p c a k) = Some c"
| "callee (Builtin c a k) = Some c"
| "callee (Shell c) = None"

text \<open>The positional and keyword arguments of every call of \<open>c\<close> in package \<open>p\<close>.\<close>

fun call_of :: "string \<Rightarrow> string \<Rightarrow> effect \<Rightarrow> (pyval list \<times> pydict) option" where
  "call_of p c (LibCall p' c' a k) = (if p = p' \<and> c = c' then Some (a, k) else None)"
| "call_of p c _ = None"

definition calls_of :: "string \<Rightarrow> string \<Rightarrow> effect list \<Rightarrow> (pyval list \<times> pydict) list" where
  "calls_of p c es = List.map_filter (call_of p c) es"

text \<open>The data written to the configuration file: the first argument of \<^verbatim>\<open>yaml.dump\<close>.\<close>

definition dumped :: "effect list \<Rightarrow> pyval list" where
  "dumped es = map (\<lambda>(a, k). case a of [] \<Rightarrow> PyNone | d # _ \<Rightarrow> d) (calls_of ''yaml'' ''dump'' es)"

text \<open>Python's \<^verbatim>\<open>len\<close> on the values that have a length.\<close>

fun py_len :: "pyval \<Rightarrow> int option" where
  "py_len (PyStr s) = Some (int (length s))"
| "py_len (PyList xs) = Some (int (length xs))"
| "py_len (PyDict d) = Some (int (length d))"
| "py_len _ = None"

subsection \<open>Paths and shell lines\<close>

text \<open>Python's \<^verbatim>\<open>s.split(c)\<close>: the pieces of \<open>s\<close> between the occurrences of \<open>c\<close>.\<close>

fun split_on :: "char \<Rightarrow> string \<Rightarrow> string list" where
  "split_on c [] = [[]]"
| "split_on c (x # xs) =
     (if x = c then [] # split_on c xs
      else (case split_on c xs of
              [] \<Rightarrow> [[x]]
            | piece # pieces \<Rightarrow> (x # piece) # pieces))"

text \<open>
  The directories and the file a relative path names, one after the other: the pieces
  between the slashes, without the empty ones and without \<^verbatim>\<open>.\<close>.
\<close>

definition components :: "string \<Rightarrow> string list" where
  "components p = filter (\<lambda>piece. piece \<noteq> [] \<and> piece \<noteq> ''.'') (split_on CHR ''/'' p)"

definition path_join :: "string \<Rightarrow> string \<Rightarrow> string" where
  "path_join root p = (if root = [] then p else root @ ''/'' @ p)"

text \<open>\<open>under dir p\<close>: the path \<open>p\<close> names \<open>dir\<close> itself or something below it.\<close>

definition under :: "string \<Rightarrow> string \<Rightarrow> bool" where
  "under dir p = prefix (components dir) (components p)"

text \<open>The words of a shell line, and the value of a \<^verbatim>\<open>key=value\<close> word among them.\<close>

definition shell_words :: "string \<Rightarrow> string list" where
  "shell_words line = filter (\<lambda>word. word \<noteq> []) (split_on CHR '' '' line)"

definition cli_option :: "string \<Rightarrow> string list \<Rightarrow> string option" where
  "cli_option key ws =
     map_option (drop (length key + 1)) (List.find (prefix (key @ ''='')) ws)"

subsection \<open>What the calls are given\<close>

definition library_calls :: "effect list \<Rightarrow> string list" where
  "library_calls es = List.map_filter callee (filter library_call es)"

definition shell_commands :: "effect list \<Rightarrow> string list" where
  "shell_commands es = List.map_filter shell_command es"

text \<open>
  The export step is the shell line \<^verbatim>\<open>yolo export model=... format=...\<close>; the weights
  file it converts is the value of its \<^verbatim>\<open>model\<close> option.
\<close>

definition export_commands :: "effect list \<Rightarrow> string list list" where
  "export_commands es =
     filter (\<lambda>ws. take 2 ws = [''yolo'', ''export'']) (map shell_words (shell_commands es))"

definition export_model :: "effect list \<Rightarrow> string option list" where
  "export_model es = map (cli_option ''model'') (export_commands es)"

text \<open>
  The training library writes a run into the directory \<^verbatim>\<open>project/name\<close> of its
  settings, and the best weights of the run into \<^verbatim>\<open>weights/best.pt\<close> below it. With
  either setting absent the library's own defaults decide, which are not modelled.
\<close>

definition save_dir :: "pydict \<Rightarrow> string option" where
  "save_dir kwargs =
     (case (map_of kwargs ''project'', map_of kwargs ''name'') of
        (Some (PyStr p), Some (PyStr n)) \<Rightarrow> Some (path_join p n)
      | _ \<Rightarrow> None)"

definition trained_weights :: "effect list \<Rightarrow> string option list" where
  "trained_weights es =
     map (\<lambda>(a, kwargs). map_option (\<lambda>dir. path_join dir ''weights/best.pt'') (save_dir kwargs))
       (calls_of ''ultralytics'' ''train'' es)"

text \<open>The string stored under a key of a dictionary, when there is one.\<close>

definition str_at :: "pydict \<Rightarrow> string \<Rightarrow> string option" where
  "str_at d k = (case map_of d k of Some (PyStr s) \<Rightarrow> Some s | _ \<Rightarrow> None)"

definition split_folders :: "pydict \<Rightarrow> string list" where
  "split_folders d = List.map_filter (str_at d) [''train'', ''val'', ''test'']"

definition download_location :: "effect list \<Rightarrow> string option list" where
  "download_location es = map (\<lambda>(a, kwargs). str_at kwargs ''location'') (calls_of ''roboflow'' ''download'' es)"

subsection \<open>Shapes of values\<close>

text \<open>A value that is no container: a number, a boolean or a string.\<close>

fun flat_value :: "pyval \<Rightarrow> bool" where
  "flat_value (PyBool b) = True"
| "flat_value (PyInt i) = True"
| "flat_value (PyFloat m e) = True"
| "flat_value (PyStr s) = True"
| "flat_value _ = False"

fun is_str :: "pyval \<Rightarrow> bool" where
  "is_str (PyStr s) = True"
| "is_str _ = False"

text \<open>A plain string, an integer, or a list of plain strings.\<close>

fun plain :: "pyval \<Rightarrow> bool" where
  "plain (PyStr s) = True"
| "plain (PyInt i) = True"
| "plain (PyList xs) = list_all is_str xs"
| "plain _ = False"

section \<open>The serializer\<close>

text \<open>
  \<^verbatim>\<open>yaml.dump(data_yaml, fp, yaml.SafeDumper)\<close> calls the YAML package, which is not
  part of the repository. What follows is the part of its behaviour that the
  notebook's call depends on, at the level of the representation graph that the safe
  dumper builds from the data and the safe loader builds the data back from:
  \<^item> the safe representer knows \<^verbatim>\<open>None\<close>, \<^verbatim>\<open>bool\<close>, \<^verbatim>\<open>int\<close>, \<^verbatim>\<open>float\<close>,
    \<^verbatim>\<open>str\<close>, \<^verbatim>\<open>list\<close> and \<^verbatim>\<open>dict\<close> among the values modelled here, and raises
    \<^verbatim>\<open>RepresenterError\<close> on an instance of any other class;
  \<^item> a mapping is represented with its items sorted by key when \<^verbatim>\<open>sort_keys\<close> is set,
    and \<^verbatim>\<open>sort_keys\<close> is set unless the caller passes \<^verbatim>\<open>sort_keys=False\<close>;
  \<^item> the loader builds a dictionary by storing the items of a mapping node one after the
    other, in the order of the node.
  A node is named by its tag. The text of a scalar is not modelled: a scalar node keeps
  the value its text stands for. That the text of a scalar, written and read back,
  denotes the same value of the same type is the package's contract and is not proved
  here. The keys of the dictionaries are \<^verbatim>\<open>str\<close>, and a key node is kept as its
  string.
\<close>

datatype yaml_error = RepresenterError

datatype node =
    NullNode
  | BoolNode bool
  | IntNode int
  | FloatNode int int
  | StrNode string
  | SequenceNode "node list"
  | MappingNode "(string \<times> node) list"

text \<open>
  \<^verbatim>\<open>mapping = list(mapping.items()); if self.sort_keys: mapping = sorted(mapping)\<close>.
  The keys of a dictionary are distinct, so sorting the items sorts them by key; strings
  compare character by character.
\<close>

definition sorted_items :: "bool \<Rightarrow> pydict \<Rightarrow> pydict" where
  "sorted_items sort_keys mapping = (if sort_keys then sort_key fst mapping else mapping)"

function represent_data :: "bool \<Rightarrow> pyval \<Rightarrow> yaml_error + node"
  and represent_sequence :: "bool \<Rightarrow> pyval list \<Rightarrow> yaml_error + node list"
  and represent_mapping :: "bool \<Rightarrow> pydict \<Rightarrow> yaml_error + (string \<times> node) list"
where
  "represent_data sk PyNone = Inr NullNode"
| "represent_data sk (PyBool b) = Inr (BoolNode b)"
| "represent_data sk (PyInt i) = Inr (IntNode i)"
| "represent_data sk (PyFloat m e) = Inr (FloatNode m e)"
| "represent_data sk (PyStr s) = Inr (StrNode s)"
| "represent_data sk (PyList xs) =
     (case represent_sequence sk xs of
        Inl err \<Rightarrow> Inl err
      | Inr ns \<Rightarrow> Inr (SequenceNode ns))"
| "represent_data sk (PyDict d) =
     (case represent_mapping sk (sorted_items sk d) of
        Inl err \<Rightarrow> Inl err
      | Inr ps \<Rightarrow> Inr (MappingNode ps))"
| "represent_data sk (PyObject c) = Inl RepresenterError"
| "represent_sequence sk [] = Inr []"
| "represent_sequence sk (x # xs) =
     (case represent_data sk x of
        Inl err \<Rightarrow> Inl err
      | Inr n \<Rightarrow>
          (case represent_sequence sk xs of
             Inl err \<Rightarrow> Inl err
           | Inr ns \<Rightarrow> Inr (n # ns)))"
| "represent_mapping sk [] = Inr []"
| "represent_mapping sk ((k, v) # kvs) =
     (case represent_data sk v of
        Inl err \<Rightarrow> Inl err
      | Inr n \<Rightarrow>
          (case represent_mapping sk kvs of
             Inl err \<Rightarrow> Inl err
           | Inr ps \<Rightarrow> Inr ((k, n) # ps)))"
  by pat_completeness auto
termination
proof -
  have ins: "size_list f (insort_key g x xs) = size_list f (x # xs)"
    for f :: "string \<times> pyval \<Rightarrow> nat" and g :: "string \<times> pyval \<Rightarrow> string" and x xs
    by (induction xs) auto
  have srt: "size_list f (sort_key g xs) = size_list f xs"
    for f :: "string \<times> pyval \<Rightarrow> nat" and g :: "string \<times> pyval \<Rightarrow> string" and xs
    by (induction xs) (auto simp: ins)
  have items: "size_list f (sorted_items sk d) = size_list f d"
    for f :: "string \<times> pyval \<Rightarrow> nat" and sk d
    by (simp add: sorted_items_def srt)
  show ?thesis
    by (relation "measure (\<lambda>x. case x of
           Inl (sk, v) \<Rightarrow> 2 * size v
         | Inr (Inl (sk, xs)) \<Rightarrow> 2 * size_list size xs + 1
         | Inr (Inr (sk, d)) \<Rightarrow> 2 * size_list (size_prod (\<lambda>_. 0) size) d + 1)")
       (auto simp: items)
qed

text \<open>
  \<^verbatim>\<open>mapping[key] = value\<close> for each item of the node in turn: a key seen before keeps
  its place and takes the new value, a new key goes to the end.
\<close>

fun construct_object :: "node \<Rightarrow> pyval" where
  "construct_object NullNode = PyNone"
| "construct_object (BoolNode b) = PyBool b"
| "construct_object (IntNode i) = PyInt i"
| "construct_object (FloatNode m e) = PyFloat m e"
| "construct_object (StrNode s) = PyStr s"
| "construct_object (SequenceNode ns) = PyList (map construct_object ns)"
| "construct_object (MappingNode ps) =
     PyDict (fold (\<lambda>(k, n) mapping. AList.update k (construct_object n) mapping) ps [])"

text \<open>
  The notebook's call passes the data, the stream and the dumper class and no keyword,
  so \<^verbatim>\<open>sort_keys\<close> has its default.
\<close>

definition dump :: "pyval \<Rightarrow> yaml_error + node" where
  "dump data = represent_data True data"

definition load :: "node \<Rightarrow> pyval" where
  "load document = construct_object document"

definition round_trip :: "pyval \<Rightarrow> yaml_error + pyval" where
  "round_trip data = (case dump data of Inl err \<Rightarrow> Inl err | Inr document \<Rightarrow> Inr (load document))"

section \<open>The configuration record\<close>

lemma dumped_notebook: "dumped (notebook w) = [PyDict (data_yaml (labels_of (classes w)))]"
  by (simp add: dumped_def calls_of_def notebook_def train_cell_def)

text \<open>
  C1. In the configuration record that the notebook assembles and hands to the
  serializer, the class count is the length of the class name list: for every mapping
  \<^verbatim>\<open>project.classes\<close>, the record written has an integer \<open>nc\<close> and a list \<open>names\<close> with
  \<open>nc = len(names)\<close>.
\<close>

theorem nc_equals_number_of_names:
  "\<exists>d n xs. dumped (notebook w) = [PyDict d]
      \<and> map_of d ''nc'' = Some (PyInt n)
      \<and> map_of d ''names'' = Some (PyList xs)
      \<and> py_len (PyList xs) = Some n
      \<and> n = int (length (classes w))"
  by (simp add: dumped_notebook data_yaml_def labels_of_def)

text \<open>
  C5. The mapping written to the configuration file has exactly six top-level keys, the
  same for every run: the root path, the three split names, the class count and the
  class name list.
\<close>

theorem data_yaml_fixed_keys:
  "dumped (notebook w) = [PyDict (data_yaml (labels_of (classes w)))]
    \<and> map fst (data_yaml labels) = [''path'', ''train'', ''val'', ''test'', ''nc'', ''names'']
    \<and> distinct (map fst (data_yaml labels))
    \<and> length (data_yaml labels) = 6"
  by (simp add: dumped_notebook data_yaml_def)

text \<open>
  C7. The claim reads the class names from the downloaded dataset. The notebook reads
  them from \<^verbatim>\<open>project.classes\<close>: the names written are the keys of that mapping, in
  its order, and the value that the download returned has no part in any effect.
\<close>

theorem names_come_from_project_classes:
  "(\<exists>d. dumped (notebook w) = [PyDict d]
        \<and> map_of d ''names'' = Some (PyList (map PyStr (map fst (classes w)))))
    \<and> notebook (w\<lparr>dataset := other\<rparr>) = notebook w"
  by (simp add: dumped_notebook data_yaml_def labels_of_def) (simp add: notebook_def)

text \<open>
  Where the project lists a class that the downloaded version does not have, the names
  written are not those of the downloaded dataset.
\<close>

theorem names_of_downloaded_dataset_counterexample:
  "\<not> (\<exists>d. dumped (notebook \<lparr>classes = [(''box'', PyInt 3), (''forklift'', PyInt 1)],
                dataset = \<lparr>location = ''datasets'', class_names = [''box'']\<rparr>\<rparr>) = [PyDict d]
          \<and> map_of d ''names'' = Some (PyList (map PyStr (class_names (dataset
               \<lparr>classes = [(''box'', PyInt 3), (''forklift'', PyInt 1)],
                dataset = \<lparr>location = ''datasets'', class_names = [''box'']\<rparr>\<rparr>)))))"
  by (simp add: dumped_notebook data_yaml_def labels_of_def)

lemma download_location_notebook: "download_location (notebook w) = [Some ''datasets'']"
  by (simp add: download_location_def calls_of_def notebook_def train_cell_def str_at_def)

lemma split_folders_data_yaml: "split_folders (data_yaml labels) = [''train'', ''valid'', ''test'']"
  by (simp add: split_folders_def data_yaml_def str_at_def)

text \<open>
  C8. The root path of the configuration record is the string \<^verbatim>\<open>.\<close>, while the dataset
  is downloaded into \<^verbatim>\<open>datasets\<close>. Joined to that root, none of the three split folders
  lies under the download location; joined to the download location each of them would.
\<close>

theorem root_path_is_not_download_location:
  "str_at (data_yaml labels) ''path'' = Some ''.''
    \<and> download_location (notebook w) = [Some ''datasets'']
    \<and> \<not> under ''datasets'' ''.''
    \<and> split_folders (data_yaml labels) = [''train'', ''valid'', ''test'']
    \<and> list_all (\<lambda>s. \<not> under ''datasets'' (path_join ''.'' s)) (split_folders (data_yaml labels))
    \<and> list_all (\<lambda>s. under ''datasets'' (path_join ''datasets'' s)) (split_folders (data_yaml labels))"
  by (simp add: download_location_notebook split_folders_data_yaml)
     (simp add: data_yaml_def str_at_def under_def components_def path_join_def)

section \<open>The calls of the notebook\<close>

lemma library_calls_notebook:
  "library_calls (notebook w) =
     [''Roboflow'', ''workspace'', ''project'', ''version'', ''download'', ''dump'', ''YOLO'',
      ''train'', ''val'']"
  by (simp add: library_calls_def notebook_def train_cell_def)

lemma shell_commands_notebook:
  "shell_commands (notebook w) =
     [''pip install --upgrade --no-cache-dir --quiet ultralytics roboflow pyyaml tensorboard'',
      ''yolo export model=object-detector/test-run-3/weights/best.pt format=tflite'']"
  by (simp add: shell_commands_def notebook_def train_cell_def)

lemma export_commands_notebook:
  "export_commands (notebook w) =
     [[''yolo'', ''export'', ''model=object-detector/test-run-3/weights/best.pt'', ''format=tflite'']]"
  by (simp add: export_commands_def shell_commands_notebook shell_words_def)

lemma export_model_notebook:
  "export_model (notebook w) = [Some ''object-detector/test-run-3/weights/best.pt'']"
  by (simp add: export_model_def export_commands_notebook cli_option_def)

lemma train_calls_notebook:
  "calls_of ''ultralytics'' ''train'' (notebook w) = [([], hyperparameters)]"
  by (simp add: calls_of_def notebook_def train_cell_def)

lemma trained_weights_notebook:
  "trained_weights (notebook w) = [Some ''object-detection/training-1/weights/best.pt'']"
  by (simp add: trained_weights_def train_calls_notebook save_dir_def hyperparameters_def
      path_join_def)

lemma components_export_path:
  "components ''object-detector/test-run-3/weights/best.pt'' =
     [''object-detector'', ''test-run-3'', ''weights'', ''best.pt'']"
  by (simp add: components_def)

text \<open>
  C3. The claim has the export step convert the weights that the training call wrote.
  The training call is given the project \<^verbatim>\<open>object-detection\<close> and the run name
  \<^verbatim>\<open>training-1\<close>; the export line names \<^verbatim>\<open>object-detector/test-run-3/weights/best.pt\<close>,
  a file that is not under the run's directory and whose path holds neither the project
  nor the run name.
\<close>

theorem export_reads_another_run:
  "export_model (notebook w) = [Some ''object-detector/test-run-3/weights/best.pt'']
    \<and> trained_weights (notebook w) = [Some ''object-detection/training-1/weights/best.pt'']
    \<and> export_model (notebook w) \<noteq> trained_weights (notebook w)
    \<and> \<not> under ''object-detection/training-1'' ''object-detector/test-run-3/weights/best.pt''
    \<and> ''object-detection'' \<notin> set (components ''object-detector/test-run-3/weights/best.pt'')
    \<and> ''training-1'' \<notin> set (components ''object-detector/test-run-3/weights/best.pt'')"
  by (simp add: export_model_notebook trained_weights_notebook components_export_path under_def)
     (simp add: components_def)

text \<open>
  C4. The claim counts four library calls with the export among them. The notebook
  calls into its packages nine times; download, train and validate are one call each,
  and no call is an export: the export is one of the two shell lines.
\<close>

theorem export_is_a_shell_command:
  "library_calls (notebook w) =
     [''Roboflow'', ''workspace'', ''project'', ''version'', ''download'', ''dump'', ''YOLO'',
      ''train'', ''val'']
    \<and> count_list (library_calls (notebook w)) ''download'' = 1
    \<and> count_list (library_calls (notebook w)) ''train'' = 1
    \<and> count_list (library_calls (notebook w)) ''val'' = 1
    \<and> ''export'' \<notin> set (library_calls (notebook w))
    \<and> export_commands (notebook w) =
        [[''yolo'', ''export'', ''model=object-detector/test-run-3/weights/best.pt'', ''format=tflite'']]
    \<and> length (shell_commands (notebook w)) = 2"
  by (simp add: library_calls_notebook export_commands_notebook shell_commands_notebook)

text \<open>The library calls are not four, and none of them is an export.\<close>

theorem four_library_calls_counterexample:
  "\<not> (length (library_calls (notebook \<lparr>classes = [(''box'', PyInt 3)],
           dataset = \<lparr>location = ''datasets'', class_names = [''box'']\<rparr>\<rparr>)) = 4
       \<and> ''export'' \<in> set (library_calls (notebook \<lparr>classes = [(''box'', PyInt 3)],
           dataset = \<lparr>location = ''datasets'', class_names = [''box'']\<rparr>\<rparr>)))"
  by (simp add: library_calls_notebook)

section \<open>The hyperparameters\<close>

text \<open>
  C6. Every value of the hyperparameter record is a number, a boolean or a string, under
  twelve distinct option names. The notebook makes one training call, whose keyword
  arguments are the record as it was built; and whatever the record holds, the training
  cell hands it over whole, with no check of its own.
\<close>

theorem hyperparameters_flat_and_passed_whole:
  "list_all flat_value (map snd hyperparameters)
    \<and> distinct (map fst hyperparameters)
    \<and> length hyperparameters = 12
    \<and> calls_of ''ultralytics'' ''train'' (notebook w) = [([], hyperparameters)]
    \<and> call_of ''ultralytics'' ''train'' (train_cell kwargs) = Some ([], kwargs)"
  by (simp add: train_calls_notebook train_cell_def) (simp add: hyperparameters_def)

text \<open>
  C9. The simple hyperparameter mapping is a sub-mapping of the full one: its keys are
  device, data, epochs, batch and seed, and the full mapping holds each of them with the
  same value. The notebook's one training call is made with the full mapping, so the
  keyword arguments of that call hold every option of the simple mapping with the simple
  mapping's value.
\<close>

theorem simple_hyperparameters_submapping:
  "map_of simple_hyperparameters \<subseteq>\<^sub>m map_of hyperparameters
    \<and> map fst simple_hyperparameters = [''device'', ''data'', ''epochs'', ''batch'', ''seed'']
    \<and> list_all (\<lambda>(k, v). map_of hyperparameters k = Some v) simple_hyperparameters
    \<and> (\<exists>kwargs. calls_of ''ultralytics'' ''train'' (notebook w) = [([], kwargs)]
          \<and> map_of simple_hyperparameters \<subseteq>\<^sub>m map_of kwargs
          \<and> list_all (\<lambda>(k, v). map_of kwargs k = Some v) simple_hyperparameters)"
proof -
  have sub: "map_of simple_hyperparameters \<subseteq>\<^sub>m map_of hyperparameters"
    by (simp add: map_le_def simple_hyperparameters_def hyperparameters_def)
  have ks: "map fst simple_hyperparameters = [''device'', ''data'', ''epochs'', ''batch'', ''seed'']"
    by (simp add: simple_hyperparameters_def)
  have each: "list_all (\<lambda>(k, v). map_of hyperparameters k = Some v) simple_hyperparameters"
    by (simp add: simple_hyperparameters_def hyperparameters_def)
  have call: "calls_of ''ultralytics'' ''train'' (notebook w) = [([], hyperparameters)]"
    by (rule train_calls_notebook)
  from call sub each
  have "\<exists>kwargs. calls_of ''ultralytics'' ''train'' (notebook w) = [([], kwargs)]
          \<and> map_of simple_hyperparameters \<subseteq>\<^sub>m map_of kwargs
          \<and> list_all (\<lambda>(k, v). map_of kwargs k = Some v) simple_hyperparameters"
    by (intro exI [of _ hyperparameters] conjI)
  with sub ks each show ?thesis
    by (intro conjI)
qed

section \<open>Writing the configuration file\<close>

lemma represent_sequence_strs:
  "represent_sequence sk (map PyStr labels) = Inr (map StrNode labels)"
  by (induction labels) simp_all

lemma sorted_items_data_yaml:
  "sorted_items True (data_yaml labels) =
     [(''names'', PyList (map PyStr labels)), (''nc'', PyInt (int (length labels))),
      (''path'', PyStr ''.''), (''test'', PyStr ''test''), (''train'', PyStr ''train''),
      (''val'', PyStr ''valid'')]"
  by (simp add: sorted_items_def data_yaml_def)

lemma dump_data_yaml:
  "dump (PyDict (data_yaml labels)) =
     Inr (MappingNode
       [(''names'', SequenceNode (map StrNode labels)), (''nc'', IntNode (int (length labels))),
        (''path'', StrNode ''.''), (''test'', StrNode ''test''), (''train'', StrNode ''train''),
        (''val'', StrNode ''valid'')])"
  by (simp add: dump_def sorted_items_data_yaml represent_sequence_strs)

lemma round_trip_data_yaml:
  "round_trip (PyDict (data_yaml labels)) =
     Inr (PyDict
       [(''names'', PyList (map PyStr labels)), (''nc'', PyInt (int (length labels))),
        (''path'', PyStr ''.''), (''test'', PyStr ''test''), (''train'', PyStr ''train''),
        (''val'', PyStr ''valid'')])"
  by (simp add: round_trip_def dump_data_yaml load_def comp_def)

text \<open>The error of the safe dumper is there to be reached: an object in the record raises it.\<close>

lemma dump_refuses_objects: "dump (PyDict [(k, PyObject c)]) = Inl RepresenterError"
  by (simp add: dump_def sorted_items_def)

text \<open>
  C2. The claim has the configuration come back from the serializer with its keys in
  the order of the record. Written and read back, the record has the same keys with the
  same values, of the same types; the keys come back sorted (names, nc, path, test,
  train, val), since the call leaves \<^verbatim>\<open>sort_keys\<close> at its default.
\<close>

theorem round_trip_keeps_values_sorts_keys:
  "\<exists>d. round_trip (PyDict (data_yaml labels)) = Inr (PyDict d)
      \<and> map_of d = map_of (data_yaml labels)
      \<and> map fst d = sort (map fst (data_yaml labels))
      \<and> map fst d = [''names'', ''nc'', ''path'', ''test'', ''train'', ''val'']"
proof -
  let ?d = "[(''names'', PyList (map PyStr labels)), (''nc'', PyInt (int (length labels))),
             (''path'', PyStr ''.''), (''test'', PyStr ''test''), (''train'', PyStr ''train''),
             (''val'', PyStr ''valid'')]"
  have "round_trip (PyDict (data_yaml labels)) = Inr (PyDict ?d)"
    by (rule round_trip_data_yaml)
  moreover have "map_of ?d = map_of (data_yaml labels)"
    by (auto simp: data_yaml_def fun_eq_iff)
  moreover have "map fst ?d = sort (map fst (data_yaml labels))"
    by (simp add: data_yaml_def)
  moreover have "map fst ?d = [''names'', ''nc'', ''path'', ''test'', ''train'', ''val'']"
    by simp
  ultimately show ?thesis
    by (intro exI [of _ ?d] conjI)
qed

text \<open>For two class names the keys read back are not in the order of the record.\<close>

theorem round_trip_key_order_counterexample:
  "\<not> (\<exists>d. round_trip (PyDict (data_yaml [''box'', ''pallet''])) = Inr (PyDict d)
          \<and> map fst d = map fst (data_yaml [''box'', ''pallet'']))"
  by (simp add: round_trip_data_yaml) (simp add: data_yaml_def)

text \<open>
  C10. For every list of class names, each value of the configuration record is a plain
  string, an integer or a list of plain strings, and the safe dumper represents the
  record: its \<^verbatim>\<open>RepresenterError\<close> is not raised.
\<close>

theorem data_yaml_always_representable:
  "list_all plain (map snd (data_yaml labels))
    \<and> (\<exists>document. dump (PyDict (data_yaml labels)) = Inr document)
    \<and> dump (PyDict (data_yaml labels)) \<noteq> Inl RepresenterError"
proof -
  have "list_all is_str (map PyStr labels)"
    by (induction labels) simp_all
  then have "list_all plain (map snd (data_yaml labels))"
    by (simp add: data_yaml_def)
  then show ?thesis
    by (simp add: dump_data_yaml)
qed

end
